theory Spec2Isabelle
  imports Main "HOL-Library.Word" "HOL-Library.Multiset"
begin

section \<open>AnekaZoo: the in-memory animal store and its HTTP handlers\<close>

text \<open>
  A shallow embedding of \<^verbatim>\<open>main.go\<close>. The store is a Go map from ids to
  records together with the auto-increment counter; every method takes the store and
  returns the store it leaves behind. Each method holds the store's mutex for its whole
  body, so a method is one atomic step and the mutex itself is not part of the state.
\<close>

subsection \<open>Data model\<close>

text \<open>Go's \<^verbatim>\<open>int\<close> on a 64-bit target: addition wraps around.\<close>

type_synonym go_int = "64 word"

record Animal =
  ID :: go_int
  Name :: string
  Class :: string
  Legs :: go_int

record InMemoryAnimalStore =
  animals :: "go_int \<rightharpoonup> Animal"
  nextID :: go_int

text \<open>
  The store reports failure with \<^verbatim>\<open>fmt.Errorf\<close>; there is one constructor for
  each message the source formats, carrying the id printed by \<^verbatim>\<open>%d\<close>:
  \<^item> \<open>NoAnimalsFound\<close>: "no animals found"
  \<^item> \<open>NotFound id\<close>: "animal with ID %d not found"
  \<^item> \<open>AlreadyExists id\<close>: "animal with ID %d already exists"
  \<^item> \<open>NotFoundForUpdate id\<close>: "animal with ID %d not found for update"
  \<^item> \<open>NotFoundForDeletion id\<close>: "animal with ID %d not found for deletion"

  A method returning Go's \<^verbatim>\<open>error\<close> returns \<open>error option\<close>, with \<open>None\<close>
  for \<^verbatim>\<open>nil\<close>; a method returning a value and an error returns a sum.
\<close>

datatype error =
    NoAnimalsFound
  | NotFound go_int
  | AlreadyExists go_int
  | NotFoundForUpdate go_int
  | NotFoundForDeletion go_int

subsection \<open>The store\<close>

definition NewInMemoryAnimalStore :: InMemoryAnimalStore where
  "NewInMemoryAnimalStore = \<lparr>animals = Map.empty, nextID = 1\<rparr>"

text \<open>
  \<^verbatim>\<open>GetAllAnimals\<close> ranges over the map. Go leaves the order of that iteration
  unspecified, so the order \<open>ks\<close> in which the loop visits the keys is an argument; it is
  an order of the map when it lists every key exactly once.
\<close>

definition range_order :: "InMemoryAnimalStore \<Rightarrow> go_int list \<Rightarrow> bool" where
  "range_order s ks \<longleftrightarrow> distinct ks \<and> set ks = dom (animals s)"

definition GetAllAnimals :: "go_int list \<Rightarrow> InMemoryAnimalStore \<Rightarrow> error + Animal list" where
  "GetAllAnimals ks s =
     (if animals s = Map.empty then Inl NoAnimalsFound
      else Inr (List.map_filter (animals s) ks))"

definition GetAnimalByID :: "InMemoryAnimalStore \<Rightarrow> go_int \<Rightarrow> error + Animal" where
  "GetAnimalByID s i =
     (case animals s i of
        None \<Rightarrow> Inl (NotFound i)
      | Some animal \<Rightarrow> Inr animal)"

definition CreateAnimal ::
  "InMemoryAnimalStore \<Rightarrow> Animal \<Rightarrow> InMemoryAnimalStore \<times> error option" where
  "CreateAnimal s animal =
     (if ID animal = 0 then
        (let animal' = animal\<lparr>ID := nextID s\<rparr>;
             s' = s\<lparr>nextID := nextID s + 1\<rparr>
         in (s'\<lparr>animals := (animals s')(ID animal' \<mapsto> animal')\<rparr>, None))
      else if animals s (ID animal) \<noteq> None then
        (s, Some (AlreadyExists (ID animal)))
      else
        (s\<lparr>animals := (animals s)(ID animal \<mapsto> animal)\<rparr>, None))"

definition UpdateAnimal ::
  "InMemoryAnimalStore \<Rightarrow> go_int \<Rightarrow> Animal \<Rightarrow> InMemoryAnimalStore \<times> error option" where
  "UpdateAnimal s i animal =
     (if animals s i = None then (s, Some (NotFoundForUpdate i))
      else (s\<lparr>animals := (animals s)(i \<mapsto> animal\<lparr>ID := i\<rparr>)\<rparr>, None))"

definition UpsertAnimal ::
  "InMemoryAnimalStore \<Rightarrow> go_int \<Rightarrow> Animal \<Rightarrow> InMemoryAnimalStore \<times> error option" where
  "UpsertAnimal s i animal =
     (s\<lparr>animals := (animals s)(i \<mapsto> animal\<lparr>ID := i\<rparr>)\<rparr>, None)"

definition DeleteAnimal ::
  "InMemoryAnimalStore \<Rightarrow> go_int \<Rightarrow> InMemoryAnimalStore \<times> error option" where
  "DeleteAnimal s i =
     (if animals s i = None then (s, Some (NotFoundForDeletion i))
      else (s\<lparr>animals := (animals s)(i := None)\<rparr>, None))"

subsection \<open>Sequences of store calls\<close>

text \<open>
  A client of the store calls its mutating methods one after the other; \<open>run\<close> is the
  store that a list of such calls leaves, starting from the store that
  \<^verbatim>\<open>NewInMemoryAnimalStore\<close> returns. A call that returns an error leaves the store
  as it was, as the methods themselves do.
\<close>

datatype operation =
    Create Animal
  | Update go_int Animal
  | Upsert go_int Animal
  | Delete go_int

fun apply_operation :: "InMemoryAnimalStore \<Rightarrow> operation \<Rightarrow> InMemoryAnimalStore" where
  "apply_operation s (Create r) = fst (CreateAnimal s r)"
| "apply_operation s (Update i r) = fst (UpdateAnimal s i r)"
| "apply_operation s (Upsert i r) = fst (UpsertAnimal s i r)"
| "apply_operation s (Delete i) = fst (DeleteAnimal s i)"

definition run :: "operation list \<Rightarrow> InMemoryAnimalStore" where
  "run ops = foldl apply_operation NewInMemoryAnimalStore ops"

definition keys_match_ids :: "InMemoryAnimalStore \<Rightarrow> bool" where
  "keys_match_ids s \<longleftrightarrow> (\<forall>k a. animals s k = Some a \<longrightarrow> ID a = k)"

text \<open>
  \<open>stored_form s r\<close> is the record as \<^verbatim>\<open>CreateAnimal\<close> writes it into the map of
  store \<open>s\<close>: a zero id is replaced by the counter. \<open>create_all\<close> creates the records of a
  list in turn and gives up at the first error; it returns the final store and the
  records in their stored form. \<open>fresh_ids\<close> says that at each call the id under which
  the record is written (given or assigned) is not yet in the map.
\<close>

definition stored_form :: "InMemoryAnimalStore \<Rightarrow> Animal \<Rightarrow> Animal" where
  "stored_form s r = (if ID r = 0 then r\<lparr>ID := nextID s\<rparr> else r)"

fun create_all ::
  "InMemoryAnimalStore \<Rightarrow> Animal list \<Rightarrow> (InMemoryAnimalStore \<times> Animal list) option" where
  "create_all s [] = Some (s, [])"
| "create_all s (r # rs) =
     (case CreateAnimal s r of
        (s', Some err) \<Rightarrow> None
      | (s', None) \<Rightarrow>
          (case create_all s' rs of
             None \<Rightarrow> None
           | Some (s'', stored) \<Rightarrow> Some (s'', stored_form s r # stored)))"

fun fresh_ids :: "InMemoryAnimalStore \<Rightarrow> Animal list \<Rightarrow> bool" where
  "fresh_ids s [] = True"
| "fresh_ids s (r # rs) =
     (animals s (ID (stored_form s r)) = None \<and> fresh_ids (fst (CreateAnimal s r)) rs)"

text \<open>The records of a store with finitely many keys, as a multiset.\<close>

definition records :: "InMemoryAnimalStore \<Rightarrow> Animal multiset" where
  "records s = image_mset (\<lambda>k. the (animals s k)) (mset_set (dom (animals s)))"

subsection \<open>HTTP handlers\<close>

text \<open>
  A handler is modelled on what it receives from the libraries: the result of
  \<^verbatim>\<open>strconv.Atoi\<close> on the path variable (\<open>None\<close> when it returns an error) and the
  result of decoding the JSON body into an \<^verbatim>\<open>Animal\<close> (\<open>None\<close> when decoding
  fails). It returns the store it leaves and the response: the status code and what was
  written to the body.

  The POST and PUT handlers call the store twice, first \<^verbatim>\<open>GetAnimalByID\<close> and
  then a mutating method, and the mutex is released between the two calls. The server
  runs requests concurrently, so other requests can change the store in that window:
  \<open>between\<close> is the list of mutating store calls they make there, in the order in which
  they take the mutex. The handler's lookup sees the store \<open>s\<close>; its second call sees
  \<open>foldl apply_operation s between\<close>. With \<open>between = []\<close> the handler runs alone.
\<close>

datatype body =
    Plain string
  | PlainError error
  | PlainExists go_int
  | JSON Animal
  | NoBody

record response =
  status :: nat
  content :: body

abbreviation StatusCreated :: nat where "StatusCreated \<equiv> 201"
abbreviation StatusBadRequest :: nat where "StatusBadRequest \<equiv> 400"
abbreviation StatusConflict :: nat where "StatusConflict \<equiv> 409"
abbreviation StatusInternalServerError :: nat where "StatusInternalServerError \<equiv> 500"

definition createAnimalHandler ::
  "InMemoryAnimalStore \<Rightarrow> operation list \<Rightarrow> Animal option \<Rightarrow>
     InMemoryAnimalStore \<times> response" where
  "createAnimalHandler s between decoded =
     (case decoded of
        None \<Rightarrow> (s, \<lparr>status = StatusBadRequest, content = Plain ''Invalid request body''\<rparr>)
      | Some animal \<Rightarrow>
          if ID animal = 0 then
            (s, \<lparr>status = StatusBadRequest,
                 content = Plain ''Animal ID is required for creation''\<rparr>)
          else
            (case GetAnimalByID s (ID animal) of
               Inr _ \<Rightarrow> (s, \<lparr>status = StatusConflict, content = PlainExists (ID animal)\<rparr>)
             | Inl _ \<Rightarrow>
                 (case CreateAnimal (foldl apply_operation s between) animal of
                    (s', Some err) \<Rightarrow>
                      (s', \<lparr>status = StatusInternalServerError, content = PlainError err\<rparr>)
                  | (s', None) \<Rightarrow>
                      (s', \<lparr>status = StatusCreated, content = JSON animal\<rparr>))))"


subsection \<open>Example records\<close>

text \<open>The three records that \<^verbatim>\<open>main\<close> seeds, and the store after seeding.\<close>

definition lion :: Animal where
  "lion = \<lparr>ID = 1, Name = ''lion'', Class = ''mammal'', Legs = 4\<rparr>"

definition eagle :: Animal where
  "eagle = \<lparr>ID = 2, Name = ''eagle'', Class = ''bird'', Legs = 2\<rparr>"

definition snake :: Animal where
  "snake = \<lparr>ID = 3, Name = ''snake'', Class = ''reptile'', Legs = 0\<rparr>"

definition seeded :: InMemoryAnimalStore where
  "seeded =
     fst (CreateAnimal (fst (CreateAnimal (fst (CreateAnimal NewInMemoryAnimalStore lion)) eagle)) snake)"

text \<open>The records of the documented POST and PUT examples, and a record sent without an id.\<close>

definition panda :: Animal where
  "panda = \<lparr>ID = 101, Name = ''panda'', Class = ''mammal'', Legs = 4\<rparr>"

definition grizzly :: Animal where
  "grizzly = \<lparr>ID = 0, Name = ''grizzly bear'', Class = ''mammal'', Legs = 4\<rparr>"

definition cub :: Animal where
  "cub = \<lparr>ID = 0, Name = ''cub'', Class = ''mammal'', Legs = 4\<rparr>"

section \<open>Properties of the store\<close>

lemma seeded_eq:
  "seeded = \<lparr>animals = [1 \<mapsto> lion, 2 \<mapsto> eagle, 3 \<mapsto> snake], nextID = 1\<rparr>"
  by (simp add: seeded_def CreateAnimal_def NewInMemoryAnimalStore_def lion_def eagle_def
      snake_def)

text \<open>
  C1. For every store and every record \<open>r\<close> whose id is non-zero and not in the store,
  \<open>create r\<close> succeeds and \<open>getByID (ID r)\<close> afterwards returns \<open>r\<close>.
\<close>

theorem create_then_get:
  assumes "ID r \<noteq> 0" and "animals s (ID r) = None"
  shows "snd (CreateAnimal s r) = None \<and>
         GetAnimalByID (fst (CreateAnimal s r)) (ID r) = Inr r"
  using assms by (simp add: CreateAnimal_def GetAnimalByID_def)

theorem create_then_get_witness:
  "ID panda \<noteq> 0 \<and> animals seeded (ID panda) = None \<and>
   snd (CreateAnimal seeded panda) = None \<and>
   GetAnimalByID (fst (CreateAnimal seeded panda)) (ID panda) = Inr panda"
  using create_then_get [of panda seeded] by (simp add: seeded_eq panda_def)

text \<open>
  C2. For every store, every id and every record \<open>r\<close>, \<open>upsert id r\<close> returns no error,
  and \<open>getByID id\<close> afterwards returns \<open>r\<close> with its id field set to \<open>id\<close>.
\<close>

theorem upsert_then_get:
  "snd (UpsertAnimal s i r) = None \<and>
   GetAnimalByID (fst (UpsertAnimal s i r)) i = Inr (r\<lparr>ID := i\<rparr>)"
  by (simp add: UpsertAnimal_def GetAnimalByID_def)

text \<open>
  C3. For every store and every record \<open>r\<close> whose non-zero id is already in the store,
  \<open>create r\<close> returns the already-exists (conflict) error and leaves the store as it was,
  and the POST handler answers 409 without changing the store, whatever other requests
  do meanwhile. The handler's own lookup and the store's duplicate check agree on every
  record with a non-zero id: the handler answers 409 exactly when \<open>create\<close> on the store
  it looked at would report the conflict.
\<close>

theorem create_duplicate_conflict:
  assumes "ID r \<noteq> 0"
  shows "(animals s (ID r) \<noteq> None \<longrightarrow>
            CreateAnimal s r = (s, Some (AlreadyExists (ID r))) \<and>
            createAnimalHandler s between (Some r) =
              (s, \<lparr>status = StatusConflict, content = PlainExists (ID r)\<rparr>)) \<and>
         (status (snd (createAnimalHandler s between (Some r))) = StatusConflict \<longleftrightarrow>
            snd (CreateAnimal s r) = Some (AlreadyExists (ID r)))"
proof (cases "animals s (ID r)")
  case None
  have "status (snd (createAnimalHandler s between (Some r))) \<noteq> StatusConflict"
    using assms None
    by (cases "CreateAnimal (foldl apply_operation s between) r")
      (auto simp: createAnimalHandler_def GetAnimalByID_def split: option.splits)
  with assms None show ?thesis by (simp add: CreateAnimal_def)
next
  case (Some a)
  with assms show ?thesis
    by (simp add: CreateAnimal_def createAnimalHandler_def GetAnimalByID_def)
qed

theorem create_duplicate_conflict_witness:
  "ID lion \<noteq> 0 \<and> animals seeded (ID lion) \<noteq> None \<and>
   CreateAnimal seeded lion = (seeded, Some (AlreadyExists 1)) \<and>
   createAnimalHandler seeded [] (Some lion) =
     (seeded, \<lparr>status = StatusConflict, content = PlainExists 1\<rparr>)"
  using create_duplicate_conflict [of lion seeded "[]"] by (simp add: seeded_eq lion_def)

text \<open>
  C4. For every store in which \<open>id\<close> is absent and every record \<open>r\<close>, \<open>update id r\<close>
  returns the not-found error and the store is exactly the one before the call.
\<close>

theorem update_absent_not_found:
  assumes "animals s i = None"
  shows "UpdateAnimal s i r = (s, Some (NotFoundForUpdate i))"
  using assms by (simp add: UpdateAnimal_def)

theorem update_absent_not_found_witness:
  "animals seeded 55 = None \<and>
   UpdateAnimal seeded 55 panda = (seeded, Some (NotFoundForUpdate 55))"
  using update_absent_not_found [of seeded 55 panda] by (simp add: seeded_eq)




text \<open>
  C7. For every store, \<open>create\<close> on a record whose id is zero returns no error: the record
  is stored under the current value of the counter, with its id field set to that value,
  and the counter goes up by one.
\<close>

theorem create_zero_id_assigns:
  assumes "ID r = 0"
  shows "snd (CreateAnimal s r) = None \<and>
         nextID (fst (CreateAnimal s r)) = nextID s + 1 \<and>
         animals (fst (CreateAnimal s r)) = (animals s)(nextID s \<mapsto> r\<lparr>ID := nextID s\<rparr>)"
  using assms by (simp add: CreateAnimal_def Let_def)

theorem create_zero_id_assigns_witness:
  "ID cub = 0 \<and>
   CreateAnimal NewInMemoryAnimalStore cub =
     (\<lparr>animals = [1 \<mapsto> cub\<lparr>ID := 1\<rparr>], nextID = 2\<rparr>, None)"
  using create_zero_id_assigns [of cub NewInMemoryAnimalStore]
  by (simp add: cub_def NewInMemoryAnimalStore_def prod_eq_iff)

text \<open>
  C8. For every store in which \<open>id\<close> is present, \<open>delete id\<close> returns no error and
  \<open>getByID id\<close> afterwards returns the not-found error; for every store in which \<open>id\<close>
  is absent, \<open>delete id\<close> returns the not-found error (and changes nothing).
\<close>

theorem delete_then_get:
  "(animals s i \<noteq> None \<longrightarrow>
      snd (DeleteAnimal s i) = None \<and>
      GetAnimalByID (fst (DeleteAnimal s i)) i = Inl (NotFound i)) \<and>
   (animals s i = None \<longrightarrow>
      DeleteAnimal s i = (s, Some (NotFoundForDeletion i)))"
  by (simp add: DeleteAnimal_def GetAnimalByID_def)

theorem delete_then_get_witness:
  "animals seeded 2 \<noteq> None \<and>
   snd (DeleteAnimal seeded 2) = None \<and>
   GetAnimalByID (fst (DeleteAnimal seeded 2)) 2 = Inl (NotFound 2) \<and>
   animals seeded 55 = None \<and>
   DeleteAnimal seeded 55 = (seeded, Some (NotFoundForDeletion 55))"
  using delete_then_get [of seeded 2] delete_then_get [of seeded 55]
  by (simp add: seeded_eq)

subsection \<open>The map key and the id field\<close>

lemma keys_match_ids_step: "keys_match_ids s \<Longrightarrow> keys_match_ids (apply_operation s op)"
  by (cases op)
    (auto simp: keys_match_ids_def CreateAnimal_def UpdateAnimal_def UpsertAnimal_def
      DeleteAnimal_def Let_def split: if_splits)

lemma keys_match_ids_foldl:
  "keys_match_ids s \<Longrightarrow> keys_match_ids (foldl apply_operation s ops)"
  by (induction ops arbitrary: s) (simp_all add: keys_match_ids_step)

text \<open>
  C9. In every store reached from the new, empty store by any sequence of \<open>create\<close>,
  \<open>update\<close>, \<open>upsert\<close> and \<open>delete\<close> calls, a record stored under map key \<open>k\<close> has its id
  field equal to \<open>k\<close>.
\<close>

theorem reachable_key_is_id:
  assumes "animals (run ops) k = Some a"
  shows "ID a = k"
proof -
  have "keys_match_ids NewInMemoryAnimalStore"
    by (simp add: keys_match_ids_def NewInMemoryAnimalStore_def)
  then have "keys_match_ids (run ops)"
    unfolding run_def by (rule keys_match_ids_foldl)
  with assms show ?thesis
    by (simp add: keys_match_ids_def)
qed

theorem reachable_key_is_id_witness:
  "animals (run [Create lion, Create cub, Upsert 7 panda, Update 7 grizzly, Delete 1]) 7 =
     Some (grizzly\<lparr>ID := 7\<rparr>) \<and>
   ID (grizzly\<lparr>ID := 7\<rparr>) = 7"
  using reachable_key_is_id
    [of "[Create lion, Create cub, Upsert 7 panda, Update 7 grizzly, Delete 1]" 7
      "grizzly\<lparr>ID := 7\<rparr>"]
  by (simp add: run_def CreateAnimal_def UpdateAnimal_def UpsertAnimal_def DeleteAnimal_def
      NewInMemoryAnimalStore_def lion_def cub_def)

subsection \<open>Auto-assigned ids\<close>

text \<open>
  C10. \<open>create\<close> on a record whose id is zero never returns an error, and the id it assigns
  is not checked against the map: whenever the counter equals an id that is in the store,
  the call returns no error and the record at that id is replaced. The store after the
  three seeded records is such a state: its counter is still 1, the lion is stored at 1,
  and a zero-id \<open>create\<close> replaces the lion.
\<close>

theorem create_zero_id_overwrites:
  "(ID r = 0 \<longrightarrow> snd (CreateAnimal s r) = None) \<and>
   (ID r = 0 \<and> animals s (nextID s) = Some old \<longrightarrow>
      snd (CreateAnimal s r) = None \<and>
      animals (fst (CreateAnimal s r)) (nextID s) = Some (r\<lparr>ID := nextID s\<rparr>)) \<and>
   nextID seeded = 1 \<and> animals seeded 1 = Some lion \<and>
   CreateAnimal seeded cub =
     (\<lparr>animals = [1 \<mapsto> cub\<lparr>ID := 1\<rparr>, 2 \<mapsto> eagle, 3 \<mapsto> snake], nextID = 2\<rparr>, None)"
  by (auto simp: CreateAnimal_def Let_def seeded_eq cub_def)

theorem create_zero_id_overwrites_witness:
  "ID cub = 0 \<and> animals seeded (nextID seeded) = Some lion \<and>
   snd (CreateAnimal seeded cub) = None \<and>
   animals (fst (CreateAnimal seeded cub)) (nextID seeded) = Some (cub\<lparr>ID := nextID seeded\<rparr>) \<and>
   cub\<lparr>ID := nextID seeded\<rparr> \<noteq> lion"
  using create_zero_id_overwrites [of cub seeded lion]
  by (simp add: seeded_eq cub_def lion_def)

subsection \<open>Listing the store\<close>

text \<open>
  Whatever order the loop of \<^verbatim>\<open>GetAllAnimals\<close> visits the keys in, the slice it
  builds holds the records of the map, each once.
\<close>

lemma records_range_order:
  assumes "range_order s ks"
  shows "mset (List.map_filter (animals s) ks) = records s"
proof -
  from assms have d: "distinct ks" and k: "set ks = dom (animals s)"
    by (simp_all add: range_order_def)
  have "List.map_filter (animals s) ks = map (\<lambda>k. the (animals s k)) ks"
  proof -
    have "filter (\<lambda>x. animals s x \<noteq> None) ks = ks"
      using k by (intro filter_True) (auto simp: domIff)
    then show ?thesis by (simp add: List.map_filter_def comp_def)
  qed
  moreover have "mset_set (dom (animals s)) = mset ks"
    using d k mset_set_set by metis
  ultimately show ?thesis by (simp add: records_def)
qed

lemma records_create_fresh:
  assumes "finite (dom (animals s))" and "animals s (ID (stored_form s r)) = None"
  shows "snd (CreateAnimal s r) = None \<and>
         finite (dom (animals (fst (CreateAnimal s r)))) \<and>
         records (fst (CreateAnimal s r)) = add_mset (stored_form s r) (records s)"
proof -
  let ?k = "ID (stored_form s r)"
  have a: "animals (fst (CreateAnimal s r)) = (animals s)(?k \<mapsto> stored_form s r)"
    and e: "snd (CreateAnimal s r) = None"
    using assms(2) by (cases "ID r = 0"; simp add: CreateAnimal_def stored_form_def Let_def)+
  have notin: "?k \<notin> dom (animals s)" using assms(2) by (simp add: domIff)
  have "image_mset (\<lambda>k. the (((animals s)(?k \<mapsto> stored_form s r)) k)) (mset_set (dom (animals s)))
        = image_mset (\<lambda>k. the (animals s k)) (mset_set (dom (animals s)))"
    using notin assms(1) by (intro image_mset_cong) auto
  then have "records (fst (CreateAnimal s r)) = add_mset (stored_form s r) (records s)"
    using assms(1) notin by (simp add: records_def a)
  with e a assms(1) show ?thesis by simp
qed

lemma create_all_records:
  assumes "finite (dom (animals s))" and "fresh_ids s rs"
    and "create_all s rs = Some (s', stored)"
  shows "finite (dom (animals s')) \<and> records s' = mset stored + records s"
  using assms
proof (induction rs arbitrary: s s' stored)
  case Nil
  then show ?case by simp
next
  case (Cons r rs)
  from Cons.prems(2) have fr: "animals s (ID (stored_form s r)) = None" by simp
  from records_create_fresh [OF Cons.prems(1) fr]
  obtain s1 where c: "CreateAnimal s r = (s1, None)" and fin: "finite (dom (animals s1))"
    and rec: "records s1 = add_mset (stored_form s r) (records s)"
    by (cases "CreateAnimal s r") auto
  from Cons.prems(2) c have frs: "fresh_ids s1 rs" by simp
  from Cons.prems(3) c obtain st where
    rest: "create_all s1 rs = Some (s', st)" and st: "stored = stored_form s r # st"
    by (auto split: option.splits)
  from Cons.IH [OF fin frs rest] rec st show ?case by simp
qed

lemma fresh_ids_succeed:
  "fresh_ids s rs \<Longrightarrow> \<exists>s' stored. create_all s rs = Some (s', stored)"
proof (induction rs arbitrary: s)
  case Nil
  then show ?case by simp
next
  case (Cons r rs)
  from Cons.prems have "snd (CreateAnimal s r) = None"
    by (cases "ID r = 0"; simp add: CreateAnimal_def stored_form_def Let_def)
  then obtain s1 where c: "CreateAnimal s r = (s1, None)"
    by (cases "CreateAnimal s r") auto
  with Cons.prems have "fresh_ids s1 rs" by simp
  from Cons.IH [OF this] obtain s' st where "create_all s1 rs = Some (s', st)"
    by blast
  with c show ?case by simp
qed

lemma range_order_exists:
  assumes "finite (dom (animals s))"
  shows "\<exists>ks. range_order s ks"
proof -
  from finite_distinct_list [OF assms]
  obtain ks where "set ks = dom (animals s) \<and> distinct ks" ..
  then have "range_order s ks"
    unfolding range_order_def by (intro conjI) (erule conjE, assumption)+
  then show ?thesis ..
qed

lemma cub_panda_created:
  "create_all NewInMemoryAnimalStore [cub, panda] =
     Some (\<lparr>animals = [1 \<mapsto> cub\<lparr>ID := 1\<rparr>, 101 \<mapsto> panda], nextID = 2\<rparr>,
           [cub\<lparr>ID := 1\<rparr>, panda])"
  by (simp add: CreateAnimal_def stored_form_def NewInMemoryAnimalStore_def cub_def panda_def
      Let_def)

lemma cub_panda_fresh: "fresh_ids NewInMemoryAnimalStore [cub, panda]"
  by (simp add: CreateAnimal_def stored_form_def NewInMemoryAnimalStore_def cub_def panda_def
      Let_def)

lemma cub_panda_order:
  "range_order \<lparr>animals = [1 \<mapsto> cub\<lparr>ID := 1\<rparr>, 101 \<mapsto> panda], nextID = 2\<rparr> [101, 1]"
  by (simp add: range_order_def insert_commute)

text \<open>
  Listing a store whose map is empty returns the no-animals error. After a non-empty
  sequence of \<open>create\<close> calls on a store with an empty map, all of them successful and
  each writing its record under an id that the map does not hold at the time of the
  call, the list holds exactly the records in their stored form, each once. Calls that
  meet the second condition always succeed (\<open>fresh_ids_succeed\<close>).
\<close>

theorem list_after_fresh_creates:
  "(animals s = Map.empty \<longrightarrow> GetAllAnimals ks s = Inl NoAnimalsFound) \<and>
   (rs \<noteq> [] \<and> animals s = Map.empty \<and> create_all s rs = Some (s', stored) \<and>
    fresh_ids s rs \<and> range_order s' ks \<longrightarrow>
      (\<exists>xs. GetAllAnimals ks s' = Inr xs \<and> mset xs = mset stored))"
proof (intro conjI impI)
  assume "animals s = Map.empty"
  then show "GetAllAnimals ks s = Inl NoAnimalsFound" by (simp add: GetAllAnimals_def)
next
  assume h: "rs \<noteq> [] \<and> animals s = Map.empty \<and> create_all s rs = Some (s', stored) \<and>
    fresh_ids s rs \<and> range_order s' ks"
  then have "finite (dom (animals s))" and r0: "records s = {#}"
    by (simp_all add: records_def)
  with h have r: "records s' = mset stored"
    using create_all_records [of s rs s' stored] by simp
  from h have "stored \<noteq> []" by (cases rs) (auto split: option.splits prod.splits)
  with r have "records s' \<noteq> {#}" by simp
  then have ne: "animals s' \<noteq> Map.empty" by (auto simp: records_def)
  from h have "mset (List.map_filter (animals s') ks) = records s'"
    by (simp add: records_range_order)
  with r ne show "\<exists>xs. GetAllAnimals ks s' = Inr xs \<and> mset xs = mset stored"
    by (simp add: GetAllAnimals_def)
qed

theorem list_after_fresh_creates_witness:
  "[cub, panda] \<noteq> [] \<and> animals NewInMemoryAnimalStore = Map.empty \<and>
   fresh_ids NewInMemoryAnimalStore [cub, panda] \<and>
   (\<exists>xs. GetAllAnimals [101, 1]
           \<lparr>animals = [1 \<mapsto> cub\<lparr>ID := 1\<rparr>, 101 \<mapsto> panda], nextID = 2\<rparr> = Inr xs \<and>
         mset xs = mset [cub\<lparr>ID := 1\<rparr>, panda])"
proof -
  have e: "animals NewInMemoryAnimalStore = Map.empty"
    by (simp add: NewInMemoryAnimalStore_def)
  from list_after_fresh_creates
    [of NewInMemoryAnimalStore "[101, 1]" "[cub, panda]"
      "\<lparr>animals = [1 \<mapsto> cub\<lparr>ID := 1\<rparr>, 101 \<mapsto> panda], nextID = 2\<rparr>"
      "[cub\<lparr>ID := 1\<rparr>, panda]"]
    e cub_panda_created cub_panda_fresh cub_panda_order
  show ?thesis by blast
qed

text \<open>
  C6. Listing an empty store returns the no-animals error; after a sequence of successful
  \<open>create\<close> calls on an empty store the list should hold exactly the created records.
  The first half holds. The second fails when a zero-id record follows a record created
  with id 1 on a new store: both calls return no error, the counter is still 1, so the
  second record is written over the first, and the list holds one record although two
  were created. The lion, created without error, is not listed.
\<close>

theorem list_after_colliding_create:
  "GetAllAnimals [] NewInMemoryAnimalStore = Inl NoAnimalsFound \<and>
   snd (CreateAnimal NewInMemoryAnimalStore lion) = None \<and>
   snd (CreateAnimal (fst (CreateAnimal NewInMemoryAnimalStore lion)) cub) = None \<and>
   fst (CreateAnimal (fst (CreateAnimal NewInMemoryAnimalStore lion)) cub) =
     \<lparr>animals = [1 \<mapsto> cub\<lparr>ID := 1\<rparr>], nextID = 2\<rparr> \<and>
   range_order \<lparr>animals = [1 \<mapsto> cub\<lparr>ID := 1\<rparr>], nextID = 2\<rparr> [1] \<and>
   GetAllAnimals [1] \<lparr>animals = [1 \<mapsto> cub\<lparr>ID := 1\<rparr>], nextID = 2\<rparr> =
     Inr [cub\<lparr>ID := 1\<rparr>] \<and>
   lion \<notin> set [cub\<lparr>ID := 1\<rparr>]"
proof (intro conjI)
  show "GetAllAnimals [] NewInMemoryAnimalStore = Inl NoAnimalsFound"
    by (simp add: GetAllAnimals_def NewInMemoryAnimalStore_def)
  show "snd (CreateAnimal NewInMemoryAnimalStore lion) = None"
    by (simp add: CreateAnimal_def NewInMemoryAnimalStore_def lion_def)
  show "snd (CreateAnimal (fst (CreateAnimal NewInMemoryAnimalStore lion)) cub) = None"
    by (simp add: CreateAnimal_def cub_def Let_def)
  show "fst (CreateAnimal (fst (CreateAnimal NewInMemoryAnimalStore lion)) cub) =
     \<lparr>animals = [1 \<mapsto> cub\<lparr>ID := 1\<rparr>], nextID = 2\<rparr>"
    by (simp add: CreateAnimal_def NewInMemoryAnimalStore_def lion_def cub_def Let_def)
  show "range_order \<lparr>animals = [1 \<mapsto> cub\<lparr>ID := 1\<rparr>], nextID = 2\<rparr> [1]"
    by (simp add: range_order_def)
  show "GetAllAnimals [1] \<lparr>animals = [1 \<mapsto> cub\<lparr>ID := 1\<rparr>], nextID = 2\<rparr> =
     Inr [cub\<lparr>ID := 1\<rparr>]"
    by (simp add: GetAllAnimals_def List.map_filter_def)
  show "lion \<notin> set [cub\<lparr>ID := 1\<rparr>]"
    by (simp add: lion_def cub_def)
qed

end
